theory Spec2Isabelle
  imports Main
begin

section \<open>Values shared by both providers\<close>

text \<open>
  A thrown value. Everything the providers can catch here is an \<^verbatim>\<open>Error\<close> object: the
  S3 client rejects with service exceptions, \<^verbatim>\<open>fs.promises.stat\<close> and the streams reject
  with \<^verbatim>\<open>Error\<close>s, and the code itself throws \<^verbatim>\<open>new Error(...)\<close>. The three
  properties the catch blocks read are kept: \<^verbatim>\<open>name\<close>, \<^verbatim>\<open>message\<close> and
  \<^verbatim>\<open>$metadata?.httpStatusCode\<close>.
\<close>

record js_error =
  err_name :: string
  err_message :: string
  err_httpStatusCode :: "nat option"

text \<open>\<^verbatim>\<open>new Error(message)\<close>\<close>

definition Error :: "string \<Rightarrow> js_error" where
  "Error msg = \<lparr>err_name = ''Error'', err_message = msg, err_httpStatusCode = None\<rparr>"

text \<open>\<^verbatim>\<open>String(error)\<close> for an \<^verbatim>\<open>Error\<close> object (\<^verbatim>\<open>Error.prototype.toString\<close>).\<close>

definition String_of_error :: "js_error \<Rightarrow> string" where
  "String_of_error e =
     (if err_name e = [] then err_message e
      else if err_message e = [] then err_name e
      else err_name e @ '': '' @ err_message e)"

text \<open>
  The state of an awaited promise: it resolves with a value, rejects with an error, or
  never settles (the call does not return).
\<close>

datatype 'a promise = Resolved 'a | Rejected js_error | Pending

text \<open>
  The \<^verbatim>\<open>Target\<close> fields the cache layer reads. \<^verbatim>\<open>outputs\<close> is optional in the
  source type.
\<close>

record Target =
  target_id :: string
  cwd :: string
  outputs :: "string list option"

section \<open>The object-storage provider: CloudflareR2CacheProvider\<close>

text \<open>
  The options of the provider. \<^verbatim>\<open>maxSize\<close> is an optional number that nothing
  validates: it is an integer here, so that it may be zero or negative as well.
\<close>

record CloudflareR2CacheProviderOptions =
  accountId :: string
  bucket :: string
  apiToken :: string
  endpoint :: "string option"
  region :: "string option"
  maxSize :: "int option"
  root :: string

text \<open>
  A readable stream as the pipeline sees it: its events in order, each with the delay in
  milliseconds since the previous event (since the start of the pipeline for the first).
  A stream whose events run out without \<open>End\<close> or \<open>Fail\<close> stalls for ever.
\<close>

datatype stream_event = Data string | End | Fail js_error

type_synonym readable = "(nat \<times> stream_event) list"

text \<open>The stream returned by \<^verbatim>\<open>tar.pack(cwd, { entries })\<close>.\<close>

datatype tar_stream = TarPack string "string list option"

datatype s3_command =
    HeadObjectCommand string string
  | GetObjectCommand string string
  | PutObjectCommand string string tar_stream string

text \<open>The response object of \<^verbatim>\<open>s3Client.send\<close>; both properties may be absent.\<close>

record s3_output =
  ContentLength :: "nat option"
  Body :: "readable option"

text \<open>
  What the provider calls outside itself: the S3 client, \<^verbatim>\<open>path.resolve\<close>,
  \<^verbatim>\<open>fs.existsSync\<close>, \<^verbatim>\<open>fs.promises.stat\<close> (the size, or the rejection) and the
  extracting end of tar-fs, which is asked after every chunk written to it (flag
  \<open>False\<close>) and when its input ends (flag \<open>True\<close>) whether it fails.
\<close>

record env =
  s3_send :: "s3_command \<Rightarrow> js_error + s3_output"
  path_resolve :: "string \<Rightarrow> string \<Rightarrow> string"
  fs_existsSync :: "string \<Rightarrow> bool"
  fs_stat :: "string \<Rightarrow> js_error + nat"
  tar_extract :: "string \<Rightarrow> string list \<Rightarrow> bool \<Rightarrow> js_error option"

text \<open>The lines written with \<^verbatim>\<open>logger.silly\<close>, by their template.\<close>

datatype log_entry =
    ObjectTooLarge string nat
  | FetchedFromR2 string
  | CacheMissInR2 string
  | FetchFailed string
  | OutputTooLarge string nat
  | UploadedToR2 string
  | PutFailed string
  | ClearRequested
  | PurgeRequested nat

text \<open>
  What one call of the provider did: how its promise settled, the commands it sent to
  the object store (in order) and the lines it logged.
\<close>

record 'a run =
  settled :: "'a promise"
  sent :: "s3_command list"
  logged :: "log_entry list"

subsection \<open>TimeoutStream\<close>

text \<open>
  The constructor arms a timer; \<^verbatim>\<open>_transform\<close> clears it and passes the chunk on.
  \<open>timer\<close> is the armed deadline, \<open>None\<close> once cleared.
\<close>

record TimeoutStream =
  timer :: "nat option"
  timeout_message :: string

definition TimeoutStream_new :: "nat \<Rightarrow> string \<Rightarrow> TimeoutStream" where
  "TimeoutStream_new timeoutMs message = \<lparr>timer = Some timeoutMs, timeout_message = message\<rparr>"

definition TimeoutStream_transform :: "TimeoutStream \<Rightarrow> string \<Rightarrow> TimeoutStream \<times> string" where
  "TimeoutStream_transform ts chunk = (ts\<lparr>timer := None\<rparr>, chunk)"

text \<open>The timer's callback has run by time \<open>t\<close>: it was still armed at its deadline.\<close>

definition timer_fired :: "TimeoutStream \<Rightarrow> nat \<Rightarrow> bool" where
  "timer_fired ts t = (case timer ts of None \<Rightarrow> False | Some deadline \<Rightarrow> deadline \<le> t)"

text \<open>
  \<^verbatim>\<open>pipelineAsync(body, timeoutStream, extractStream)\<close>, event by event. \<open>elapsed\<close> is
  the time of the previous event and \<open>written\<close> the chunks passed to the extractor so far.
  An armed timer whose deadline is reached before the next event destroys the timeout
  stream with \<^verbatim>\<open>new Error(message)\<close>, which rejects the pipeline. When the events run
  out, an armed timer still fires; with the timer cleared nothing ever settles the
  pipeline.
\<close>

fun pipeline :: "readable \<Rightarrow> TimeoutStream \<Rightarrow> (string list \<Rightarrow> bool \<Rightarrow> js_error option) \<Rightarrow>
    nat \<Rightarrow> string list \<Rightarrow> unit promise" where
  "pipeline [] ts extract elapsed written =
     (case timer ts of
        Some deadline \<Rightarrow> Rejected (Error (timeout_message ts))
      | None \<Rightarrow> Pending)"
| "pipeline ((delay, ev) # rest) ts extract elapsed written =
     (let t = elapsed + delay in
      if timer_fired ts t then Rejected (Error (timeout_message ts))
      else
        (case ev of
           Data chunk \<Rightarrow>
             (let (ts', pushed) = TimeoutStream_transform ts chunk in
              case extract (written @ [pushed]) False of
                Some e \<Rightarrow> Rejected e
              | None \<Rightarrow> pipeline rest ts' extract t (written @ [pushed]))
         | End \<Rightarrow>
             (case extract written True of
                Some e \<Rightarrow> Rejected e
              | None \<Rightarrow> Resolved ())
         | Fail e \<Rightarrow> Rejected e))"

subsection \<open>fetch\<close>

text \<open>The timeout passed to the \<^verbatim>\<open>TimeoutStream\<close>: \<^verbatim>\<open>10 * 60 * 1000\<close> ms.\<close>

definition fetch_timeout_ms :: nat where
  "fetch_timeout_ms = 10 * 60 * 1000"

definition fetch_timeout_message :: "string \<Rightarrow> string" where
  "fetch_timeout_message hash = ''R2 fetch request for '' @ hash @ '' timed out''"

text \<open>The download: from \<^verbatim>\<open>new GetObjectCommand\<close> to the end of the \<^verbatim>\<open>try\<close> block.\<close>

definition R2_fetch_download ::
    "CloudflareR2CacheProviderOptions \<Rightarrow> env \<Rightarrow> string \<Rightarrow> Target \<Rightarrow> bool run" where
  "R2_fetch_download opts e hash target =
     (let getCommand = GetObjectCommand (bucket opts) hash in
      case s3_send e getCommand of
        Inl err \<Rightarrow> \<lparr>settled = Rejected err, sent = [getCommand], logged = []\<rparr>
      | Inr response \<Rightarrow>
          (case Body response of
             None \<Rightarrow>
               \<lparr>settled = Rejected (Error ''No body in R2 response''),
                sent = [getCommand], logged = []\<rparr>
           | Some body \<Rightarrow>
               (let extractStream = tar_extract e (cwd target);
                    timeoutStream = TimeoutStream_new fetch_timeout_ms (fetch_timeout_message hash)
                in case pipeline body timeoutStream extractStream 0 [] of
                     Resolved u \<Rightarrow>
                       \<lparr>settled = Resolved True, sent = [getCommand],
                        logged = [FetchedFromR2 hash]\<rparr>
                   | Rejected err \<Rightarrow>
                       \<lparr>settled = Rejected err, sent = [getCommand], logged = []\<rparr>
                   | Pending \<Rightarrow>
                       \<lparr>settled = Pending, sent = [getCommand], logged = []\<rparr>)))"

text \<open>
  The body of the \<^verbatim>\<open>try\<close> block. \<^verbatim>\<open>if (maxSize)\<close> and
  \<^verbatim>\<open>headResponse.ContentLength && ...\<close> test truthiness: an absent number and 0 are
  both falsy, and every other number, a negative one too, is truthy.
\<close>

definition R2_fetch_try ::
    "CloudflareR2CacheProviderOptions \<Rightarrow> env \<Rightarrow> string \<Rightarrow> Target \<Rightarrow> bool run" where
  "R2_fetch_try opts e hash target =
     (case maxSize opts of
        None \<Rightarrow> R2_fetch_download opts e hash target
      | Some limit \<Rightarrow>
          if limit = 0 then R2_fetch_download opts e hash target
          else
            (let headCommand = HeadObjectCommand (bucket opts) hash in
             case s3_send e headCommand of
               Inl err \<Rightarrow> \<lparr>settled = Rejected err, sent = [headCommand], logged = []\<rparr>
             | Inr headResponse \<Rightarrow>
                 (let too_large =
                        (case ContentLength headResponse of
                           None \<Rightarrow> None
                         | Some n \<Rightarrow> if n \<noteq> 0 \<and> int n > limit then Some n else None)
                  in case too_large of
                       Some n \<Rightarrow>
                         \<lparr>settled = Resolved False, sent = [headCommand],
                          logged = [ObjectTooLarge hash n]\<rparr>
                     | None \<Rightarrow>
                         (let r = R2_fetch_download opts e hash target
                          in r\<lparr>sent := headCommand # sent r\<rparr>))))"

text \<open>The message logged by a \<^verbatim>\<open>catch\<close> block: \<^verbatim>\<open>error.message || String(error)\<close>.\<close>

definition caught_message :: "js_error \<Rightarrow> string" where
  "caught_message error =
     (if err_message error \<noteq> [] then err_message error else String_of_error error)"

text \<open>The \<^verbatim>\<open>catch\<close> block of fetch.\<close>

definition R2_fetch_catch :: "string \<Rightarrow> js_error \<Rightarrow> bool \<times> log_entry" where
  "R2_fetch_catch hash error =
     (if err_name error = ''NoSuchKey'' \<or> err_httpStatusCode error = Some 404
      then (False, CacheMissInR2 hash)
      else
        (let message = caught_message error
         in (False, FetchFailed message)))"

definition R2_fetch ::
    "CloudflareR2CacheProviderOptions \<Rightarrow> env \<Rightarrow> string \<Rightarrow> Target \<Rightarrow> bool run" where
  "R2_fetch opts e hash target =
     (if hash = [] then \<lparr>settled = Resolved False, sent = [], logged = []\<rparr>
      else
        (let r = R2_fetch_try opts e hash target in
         case settled r of
           Rejected error \<Rightarrow>
             (let (result, line) = R2_fetch_catch hash error
              in \<lparr>settled = Resolved result, sent = sent r, logged = logged r @ [line]\<rparr>)
         | Resolved b \<Rightarrow> r
         | Pending \<Rightarrow> r))"

subsection \<open>put\<close>


text \<open>
  The loop over \<^verbatim>\<open>outputGlob\<close> that adds up \<^verbatim>\<open>totalSize\<close>: each entry is resolved
  against the working directory as a literal path and counted only when that path exists.
\<close>

fun R2_put_totalSize :: "env \<Rightarrow> string \<Rightarrow> string list \<Rightarrow> nat \<Rightarrow> js_error + nat" where
  "R2_put_totalSize e dir [] totalSize = Inr totalSize"
| "R2_put_totalSize e dir (glob # globs) totalSize =
     (let globPath = path_resolve e dir glob in
      if fs_existsSync e globPath then
        (case fs_stat e globPath of
           Inl err \<Rightarrow> Inl err
         | Inr stat_size \<Rightarrow> R2_put_totalSize e dir globs (totalSize + stat_size))
      else R2_put_totalSize e dir globs totalSize)"

text \<open>\<^verbatim>\<open>const outputGlob = target.outputs || ["**/*"]\<close>\<close>

definition outputGlob_of :: "Target \<Rightarrow> string list" where
  "outputGlob_of target = (case outputs target of Some globs \<Rightarrow> globs | None \<Rightarrow> [''**/*''])"

text \<open>The \<^verbatim>\<open>PutObjectCommand\<close> built from the tar stream of the outputs.\<close>

definition R2_putCommand ::
    "CloudflareR2CacheProviderOptions \<Rightarrow> string \<Rightarrow> Target \<Rightarrow> string list \<Rightarrow> s3_command" where
  "R2_putCommand opts hash target outputGlob =
     (let tarStream = TarPack (cwd target)
            (if length outputGlob = 1 \<and> hd outputGlob = ''**/*'' then None else Some outputGlob)
      in PutObjectCommand (bucket opts) hash tarStream ''application/x-tar'')"

text \<open>From \<^verbatim>\<open>tar.pack\<close> to the end of the \<^verbatim>\<open>try\<close> block.\<close>

definition R2_put_upload ::
    "CloudflareR2CacheProviderOptions \<Rightarrow> env \<Rightarrow> string \<Rightarrow> Target \<Rightarrow> string list \<Rightarrow> unit run" where
  "R2_put_upload opts e hash target outputGlob =
     (let putCommand = R2_putCommand opts hash target outputGlob
      in case s3_send e putCommand of
           Inl err \<Rightarrow> \<lparr>settled = Rejected err, sent = [putCommand], logged = []\<rparr>
         | Inr response \<Rightarrow>
             \<lparr>settled = Resolved (), sent = [putCommand], logged = [UploadedToR2 hash]\<rparr>)"

text \<open>The body of the \<^verbatim>\<open>try\<close> block of put.\<close>

definition R2_put_try ::
    "CloudflareR2CacheProviderOptions \<Rightarrow> env \<Rightarrow> string \<Rightarrow> Target \<Rightarrow> unit run" where
  "R2_put_try opts e hash target =
     (let outputGlob = outputGlob_of target in
      case maxSize opts of
        None \<Rightarrow> R2_put_upload opts e hash target outputGlob
      | Some limit \<Rightarrow>
          if limit = 0 then R2_put_upload opts e hash target outputGlob
          else
            (case R2_put_totalSize e (cwd target) outputGlob 0 of
               Inl err \<Rightarrow> \<lparr>settled = Rejected err, sent = [], logged = []\<rparr>
             | Inr totalSize \<Rightarrow>
                 if int totalSize > limit
                 then \<lparr>settled = Resolved (), sent = [], logged = [OutputTooLarge hash totalSize]\<rparr>
                 else R2_put_upload opts e hash target outputGlob))"

definition R2_put ::
    "CloudflareR2CacheProviderOptions \<Rightarrow> env \<Rightarrow> string \<Rightarrow> Target \<Rightarrow> unit run" where
  "R2_put opts e hash target =
     (if hash = [] then \<lparr>settled = Resolved (), sent = [], logged = []\<rparr>
      else
        (let r = R2_put_try opts e hash target in
         case settled r of
           Rejected error \<Rightarrow>
             (let message = caught_message error
              in \<lparr>settled = Resolved (), sent = sent r, logged = logged r @ [PutFailed message]\<rparr>)
         | Resolved u \<Rightarrow> r
         | Pending \<Rightarrow> r))"

subsection \<open>clear and purge\<close>



section \<open>The hit tables: LRUCache\<close>

text \<open>
  Modelled from the spec: class \<^verbatim>\<open>LRUCache\<close> of the package lru-cache, which the
  orchestrator imports and which is not among the sources. The spec calls the two tables
  HitRecords: a mapping from key to boolean, capacity-bounded (a fixed maximum entry
  count, least-recently-used eviction when exceeded) and time-bounded (entries expire
  after a fixed TTL; a TTL of 0 means that entries do not expire). The entries are kept
  most recently used first, each with the time it was set.
\<close>

record LRUCache =
  lru_max :: nat
  lru_ttl :: nat
  lru_entries :: "(string \<times> bool \<times> nat) list"

definition LRUCache_new :: "nat \<Rightarrow> nat \<Rightarrow> LRUCache" where
  "LRUCache_new max_entries ttl = \<lparr>lru_max = max_entries, lru_ttl = ttl, lru_entries = []\<rparr>"

definition LRU_size :: "LRUCache \<Rightarrow> nat" where
  "LRU_size c = length (lru_entries c)"

definition LRU_keys :: "LRUCache \<Rightarrow> string list" where
  "LRU_keys c = map fst (lru_entries c)"

definition LRU_has_key :: "LRUCache \<Rightarrow> string \<Rightarrow> bool" where
  "LRU_has_key c k = (k \<in> set (LRU_keys c))"

definition LRU_without :: "LRUCache \<Rightarrow> string \<Rightarrow> (string \<times> bool \<times> nat) list" where
  "LRU_without c k = filter (\<lambda>entry. fst entry \<noteq> k) (lru_entries c)"

definition LRU_isStale :: "LRUCache \<Rightarrow> nat \<Rightarrow> nat \<Rightarrow> bool" where
  "LRU_isStale c start now = (lru_ttl c \<noteq> 0 \<and> now - start > lru_ttl c)"

text \<open>
  \<^verbatim>\<open>set(key, value)\<close> at time \<open>now\<close>: the key becomes the most recently used entry; when
  that would exceed the maximum, the least recently used entry (the last) is evicted.
\<close>

definition LRU_set :: "LRUCache \<Rightarrow> string \<Rightarrow> bool \<Rightarrow> nat \<Rightarrow> LRUCache" where
  "LRU_set c k v now =
     (let others = LRU_without c k;
          kept = (if lru_max c \<le> length others then butlast others else others)
      in c\<lparr>lru_entries := (k, v, now) # kept\<rparr>)"

text \<open>
  \<^verbatim>\<open>get(key)\<close> at time \<open>now\<close>: \<open>None\<close> is \<^verbatim>\<open>undefined\<close>. A hit makes the key the most
  recently used entry; an expired entry is dropped and reads as absent.
\<close>

definition LRU_get :: "LRUCache \<Rightarrow> string \<Rightarrow> nat \<Rightarrow> bool option \<times> LRUCache" where
  "LRU_get c k now =
     (case map_of (lru_entries c) k of
        None \<Rightarrow> (None, c)
      | Some (v, start) \<Rightarrow>
          if LRU_isStale c start now then (None, c\<lparr>lru_entries := LRU_without c k\<rparr>)
          else (Some v, c\<lparr>lru_entries := (k, v, start) # LRU_without c k\<rparr>))"

definition LRU_clear :: "LRUCache \<Rightarrow> LRUCache" where
  "LRU_clear c = c\<lparr>lru_entries := []\<rparr>"

section \<open>The orchestrator: RemoteFallbackCacheProvider\<close>

text \<open>
  A \<^verbatim>\<open>CacheProvider\<close> object with its own state \<open>'s\<close>: each method takes the state and
  returns how its promise settles and the new state.
\<close>

record 's CacheProvider =
  provider_fetch :: "string \<Rightarrow> Target \<Rightarrow> 's \<Rightarrow> bool promise \<times> 's"
  provider_put :: "string \<Rightarrow> Target \<Rightarrow> 's \<Rightarrow> unit promise \<times> 's"
  provider_clear :: "'s \<Rightarrow> unit promise \<times> 's"
  provider_purge :: "nat \<Rightarrow> 's \<Rightarrow> unit promise \<times> 's"




text \<open>
  \<^verbatim>\<open>RemoteFallbackCacheProviderOptions\<close>; \<^verbatim>\<open>root\<close> is never read and the logger's lines
  go to the trace below.
\<close>

record ('l, 'r) RemoteFallbackCacheProviderOptions =
  localCacheProvider :: "'l CacheProvider option"
  remoteCacheProvider :: "'r CacheProvider option"
  writeRemoteCache :: "bool option"

text \<open>What the orchestrator does that can be seen from outside, in program order.\<close>

datatype event =
    LocalFetch string Target
  | LocalPut string Target
  | LocalClear
  | LocalPurge nat
  | RemoteFetch string Target
  | RemotePut string Target
  | LogLocalFetch string bool
  | LogRemoteFetch string bool
  | LogLocalPutFromRemote string
  | LogLocalPut string
  | LogRemotePut string

text \<open>
  The process: the two static hit tables, the state of the two providers, and the trace
  of provider calls and log lines so far.
\<close>

record ('l, 'r) world =
  localHits :: LRUCache
  remoteHits :: LRUCache
  local_state :: 'l
  remote_state :: 'r
  trace :: "event list"


definition new_events :: "('l, 'r) world \<Rightarrow> ('l, 'r) world \<Rightarrow> event list" where
  "new_events w w' = drop (length (trace w)) (trace w')"

text \<open>Truthiness of what \<^verbatim>\<open>get\<close> returned.\<close>

definition truthy :: "bool option \<Rightarrow> bool" where
  "truthy v = (case v of None \<Rightarrow> False | Some b \<Rightarrow> b)"

subsection \<open>fetch\<close>

text \<open>
  The times at which the hit tables are used are arguments: \<open>now\<close> is the clock reading
  in the synchronous stretch of code that runs once the awaited call has settled.

  The first block, \<^verbatim>\<open>if (localCacheProvider) { ... }\<close>.
\<close>

definition Fallback_fetch_local ::
    "('l, 'r) RemoteFallbackCacheProviderOptions \<Rightarrow> string \<Rightarrow> Target \<Rightarrow> nat \<Rightarrow>
     ('l, 'r) world \<Rightarrow> unit promise \<times> ('l, 'r) world" where
  "Fallback_fetch_local opts hash target now w =
     (case localCacheProvider opts of
        None \<Rightarrow> (Resolved (), w)
      | Some l \<Rightarrow>
          (case provider_fetch l hash target (local_state w) of
             (Resolved localHit, s) \<Rightarrow>
               (Resolved (),
                w\<lparr>localHits := LRU_set (localHits w) hash localHit now,
                  local_state := s,
                  trace := trace w @ [LocalFetch hash target, LogLocalFetch hash localHit]\<rparr>)
           | (Rejected err, s) \<Rightarrow>
               (Rejected err, w\<lparr>local_state := s, trace := trace w @ [LocalFetch hash target]\<rparr>)
           | (Pending, s) \<Rightarrow>
               (Pending, w\<lparr>local_state := s, trace := trace w @ [LocalFetch hash target]\<rparr>)))"

text \<open>The block \<^verbatim>\<open>if (!localHit && remoteCacheProvider) { ... }\<close>, for the remote provider \<open>r\<close>.\<close>

definition Fallback_fetch_remote ::
    "('l, 'r) RemoteFallbackCacheProviderOptions \<Rightarrow> 'r CacheProvider \<Rightarrow> string \<Rightarrow> Target \<Rightarrow>
     nat \<Rightarrow> ('l, 'r) world \<Rightarrow> bool promise \<times> ('l, 'r) world" where
  "Fallback_fetch_remote opts r hash target now w =
     (case provider_fetch r hash target (remote_state w) of
        (Resolved remoteHit, s) \<Rightarrow>
          (let w1 = w\<lparr>remoteHits := LRU_set (remoteHits w) hash remoteHit now,
                      remote_state := s,
                      trace := trace w @ [RemoteFetch hash target, LogRemoteFetch hash remoteHit]\<rparr>
           in case localCacheProvider opts of
                None \<Rightarrow> (Resolved remoteHit, w1)
              | Some l \<Rightarrow>
                  if remoteHit then
                    (case provider_put l hash target (local_state w1) of
                       (Resolved u, s') \<Rightarrow>
                         (Resolved remoteHit,
                          w1\<lparr>local_state := s',
                             trace := trace w1 @ [LogLocalPutFromRemote hash, LocalPut hash target]\<rparr>)
                     | (Rejected err, s') \<Rightarrow>
                         (Rejected err,
                          w1\<lparr>local_state := s',
                             trace := trace w1 @ [LogLocalPutFromRemote hash, LocalPut hash target]\<rparr>)
                     | (Pending, s') \<Rightarrow>
                         (Pending,
                          w1\<lparr>local_state := s',
                             trace := trace w1 @ [LogLocalPutFromRemote hash, LocalPut hash target]\<rparr>))
                  else (Resolved remoteHit, w1))
      | (Rejected err, s) \<Rightarrow>
          (Rejected err, w\<lparr>remote_state := s, trace := trace w @ [RemoteFetch hash target]\<rparr>)
      | (Pending, s) \<Rightarrow>
          (Pending, w\<lparr>remote_state := s, trace := trace w @ [RemoteFetch hash target]\<rparr>))"

text \<open>
  \<^verbatim>\<open>fetch(hash, target)\<close>. \<open>t_local\<close> is the time at which the local fetch has settled
  (the local table is written and read back then) and \<open>t_remote\<close> the time at which the
  remote fetch has settled.
\<close>

definition Fallback_fetch ::
    "('l, 'r) RemoteFallbackCacheProviderOptions \<Rightarrow> string \<Rightarrow> Target \<Rightarrow> nat \<Rightarrow> nat \<Rightarrow>
     ('l, 'r) world \<Rightarrow> bool promise \<times> ('l, 'r) world" where
  "Fallback_fetch opts hash target t_local t_remote w =
     (case Fallback_fetch_local opts hash target t_local w of
        (Rejected err, w1) \<Rightarrow> (Rejected err, w1)
      | (Pending, w1) \<Rightarrow> (Pending, w1)
      | (Resolved u, w1) \<Rightarrow>
          (let (localHit, hits) = LRU_get (localHits w1) hash t_local;
               w2 = w1\<lparr>localHits := hits\<rparr>
           in case remoteCacheProvider opts of
                None \<Rightarrow> (Resolved (truthy localHit), w2)
              | Some r \<Rightarrow>
                  if \<not> truthy localHit
                  then Fallback_fetch_remote opts r hash target t_remote w2
                  else (Resolved (truthy localHit), w2)))"

subsection \<open>put\<close>

definition Fallback_isLocalHit :: "('l, 'r) world \<Rightarrow> string \<Rightarrow> nat \<Rightarrow> bool \<times> ('l, 'r) world" where
  "Fallback_isLocalHit w hash now =
     (let (v, hits) = LRU_get (localHits w) hash now in (truthy v, w\<lparr>localHits := hits\<rparr>))"

definition Fallback_isRemoteHit :: "('l, 'r) world \<Rightarrow> string \<Rightarrow> nat \<Rightarrow> bool \<times> ('l, 'r) world" where
  "Fallback_isRemoteHit w hash now =
     (let (v, hits) = LRU_get (remoteHits w) hash now in (truthy v, w\<lparr>remoteHits := hits\<rparr>))"

text \<open>
  \<^verbatim>\<open>Promise.all\<close> over the promises pushed: it rejects when one of them rejects (with
  the error of the first one in the list, where both do), and otherwise stays pending
  while one of them is.
\<close>

fun Promise_all :: "unit promise list \<Rightarrow> unit promise" where
  "Promise_all [] = Resolved ()"
| "Promise_all (p # ps) =
     (case p of
        Rejected err \<Rightarrow> Rejected err
      | Resolved u \<Rightarrow> Promise_all ps
      | Pending \<Rightarrow> (case Promise_all ps of Rejected err \<Rightarrow> Rejected err | _ \<Rightarrow> Pending))"

text \<open>
  \<^verbatim>\<open>put(hash, target)\<close>; both hit tables are read at time \<open>now\<close>, before the first
  \<^verbatim>\<open>await\<close>.
\<close>

definition Fallback_put ::
    "('l, 'r) RemoteFallbackCacheProviderOptions \<Rightarrow> string \<Rightarrow> Target \<Rightarrow> nat \<Rightarrow>
     ('l, 'r) world \<Rightarrow> unit promise \<times> ('l, 'r) world" where
  "Fallback_put opts hash target now w =
     (let (localHit, w1) = Fallback_isLocalHit w hash now;
          (localPut, w2) =
            (case localCacheProvider opts of
               None \<Rightarrow> ([], w1)
             | Some l \<Rightarrow>
                 if \<not> localHit then
                   (case provider_put l hash target (local_state w1) of
                      (p, s) \<Rightarrow>
                        ([p], w1\<lparr>local_state := s,
                                 trace := trace w1 @ [LogLocalPut hash, LocalPut hash target]\<rparr>))
                 else ([], w1));
          (remoteHit, w3) = Fallback_isRemoteHit w2 hash now;
          (remotePut, w4) =
            (case remoteCacheProvider opts of
               None \<Rightarrow> ([], w3)
             | Some r \<Rightarrow>
                 if \<not> remoteHit \<and> writeRemoteCache opts = Some True then
                   (case provider_put r hash target (remote_state w3) of
                      (p, s) \<Rightarrow>
                        ([p], w3\<lparr>remote_state := s,
                                 trace := trace w3 @ [LogRemotePut hash, RemotePut hash target]\<rparr>))
                 else ([], w3))
      in (Promise_all (localPut @ remotePut), w4))"

subsection \<open>clear and purge\<close>

definition Fallback_clear ::
    "('l, 'r) RemoteFallbackCacheProviderOptions \<Rightarrow> ('l, 'r) world \<Rightarrow>
     unit promise \<times> ('l, 'r) world" where
  "Fallback_clear opts w =
     (let w1 = w\<lparr>localHits := LRU_clear (localHits w), remoteHits := LRU_clear (remoteHits w)\<rparr>
      in case localCacheProvider opts of
           None \<Rightarrow> (Resolved (), w1)
         | Some l \<Rightarrow>
             (case provider_clear l (local_state w1) of
                (p, s) \<Rightarrow> (p, w1\<lparr>local_state := s, trace := trace w1 @ [LocalClear]\<rparr>)))"

definition Fallback_purge ::
    "('l, 'r) RemoteFallbackCacheProviderOptions \<Rightarrow> nat \<Rightarrow> ('l, 'r) world \<Rightarrow>
     unit promise \<times> ('l, 'r) world" where
  "Fallback_purge opts sinceDays w =
     (case localCacheProvider opts of
        None \<Rightarrow> (Resolved (), w)
      | Some l \<Rightarrow>
          (case provider_purge l sinceDays (local_state w) of
             (p, s) \<Rightarrow> (p, w\<lparr>local_state := s, trace := trace w @ [LocalPurge sinceDays]\<rparr>)))"

subsection \<open>Sequences of calls\<close>

text \<open>
  The calls a caller makes one after the other, each with the clock readings of its run.
  The hit tables are process-wide, so every call goes on from the tables the previous one
  left, whatever that call returned.
\<close>

datatype cache_call =
    Fetch string Target nat nat
  | Put string Target nat
  | Clear
  | Purge nat

fun Fallback_call ::
    "('l, 'r) RemoteFallbackCacheProviderOptions \<Rightarrow> cache_call \<Rightarrow> ('l, 'r) world \<Rightarrow>
     ('l, 'r) world" where
  "Fallback_call opts (Fetch hash target t_local t_remote) w =
     snd (Fallback_fetch opts hash target t_local t_remote w)"
| "Fallback_call opts (Put hash target now) w = snd (Fallback_put opts hash target now w)"
| "Fallback_call opts Clear w = snd (Fallback_clear opts w)"
| "Fallback_call opts (Purge sinceDays) w = snd (Fallback_purge opts sinceDays w)"

fun Fallback_calls ::
    "('l, 'r) RemoteFallbackCacheProviderOptions \<Rightarrow> cache_call list \<Rightarrow> ('l, 'r) world \<Rightarrow>
     ('l, 'r) world" where
  "Fallback_calls opts [] w = w"
| "Fallback_calls opts (c # cs) w = Fallback_calls opts cs (Fallback_call opts c w)"

text \<open>A table within its bound, for a positive maximum.\<close>

definition within_max :: "LRUCache \<Rightarrow> bool" where
  "within_max c = (0 < lru_max c \<and> LRU_size c \<le> lru_max c)"

section \<open>A stalled download, and the inputs used as examples\<close>


text \<open>
  The target and the options of the provider's tests, and an environment made of an S3
  client, the sizes of the paths that exist, and an extractor that accepts everything.
\<close>

definition example_target :: Target where
  "example_target =
     \<lparr>target_id = ''test-package'', cwd = ''/tmp/pkg'',
      outputs = Some [''lib/**/*'', ''dist/**/*'']\<rparr>"

definition example_options :: "int option \<Rightarrow> CloudflareR2CacheProviderOptions" where
  "example_options limit =
     \<lparr>accountId = ''test-account-id'', bucket = ''test-bucket'', apiToken = ''test-api-token'',
      endpoint = None, region = None, maxSize = limit, root = ''/tmp/pkg''\<rparr>"

definition ENOENT :: js_error where
  "ENOENT = \<lparr>err_name = ''Error'', err_message = ''ENOENT: no such file or directory'',
     err_httpStatusCode = None\<rparr>"

definition example_env ::
    "(s3_command \<Rightarrow> js_error + s3_output) \<Rightarrow> (string \<times> nat) list \<Rightarrow> env" where
  "example_env send files =
     \<lparr>s3_send = send,
      path_resolve = (\<lambda>dir glob. dir @ ''/'' @ glob),
      fs_existsSync = (\<lambda>p. map_of files p \<noteq> None),
      fs_stat = (\<lambda>p. case map_of files p of None \<Rightarrow> Inl ENOENT | Some n \<Rightarrow> Inr n),
      tar_extract = (\<lambda>dir chunks finished. None)\<rparr>"

definition send_rejects :: "js_error \<Rightarrow> s3_command \<Rightarrow> js_error + s3_output" where
  "send_rejects err cmd = Inl err"

definition send_object :: "nat \<Rightarrow> readable \<Rightarrow> s3_command \<Rightarrow> js_error + s3_output" where
  "send_object n body cmd =
     (case cmd of
        HeadObjectCommand b k \<Rightarrow> Inr \<lparr>ContentLength = Some n, Body = None\<rparr>
      | GetObjectCommand b k \<Rightarrow> Inr \<lparr>ContentLength = Some n, Body = Some body\<rparr>
      | PutObjectCommand b k s c \<Rightarrow> Inr \<lparr>ContentLength = None, Body = None\<rparr>)"



definition two_files :: "(string \<times> nat) list" where
  "two_files = [(''/tmp/pkg/lib/file1.js'', 600 * 1024), (''/tmp/pkg/dist/file2.js'', 600 * 1024)]"

definition literal_target :: Target where
  "literal_target = example_target\<lparr>outputs := Some [''lib/file1.js'', ''dist/file2.js'']\<rparr>"


text \<open>
  A provider that keeps the keys put into it: fetch hits on the keys it holds.
\<close>

definition store_provider :: "string list CacheProvider" where
  "store_provider =
     \<lparr>provider_fetch = (\<lambda>hash target s. (Resolved (hash \<in> set s), s)),
      provider_put = (\<lambda>hash target s. (Resolved (), hash # s)),
      provider_clear = (\<lambda>s. (Resolved (), [])),
      provider_purge = (\<lambda>sinceDays s. (Resolved (), s))\<rparr>"

definition store_options ::
    "bool option \<Rightarrow> (string list, string list) RemoteFallbackCacheProviderOptions" where
  "store_options flag =
     \<lparr>localCacheProvider = Some store_provider, remoteCacheProvider = Some store_provider,
      writeRemoteCache = flag\<rparr>"

definition store_world ::
    "nat \<Rightarrow> nat \<Rightarrow> string list \<Rightarrow> string list \<Rightarrow> (string list, string list) world" where
  "store_world max_entries ttl local_keys remote_keys =
     \<lparr>localHits = LRUCache_new max_entries ttl, remoteHits = LRUCache_new max_entries ttl,
      local_state = local_keys, remote_state = remote_keys, trace = []\<rparr>"

text \<open>The same provider with a put that rejects.\<close>

definition disk_full :: js_error where
  "disk_full = Error ''ENOSPC: no space left on device''"

definition failing_put_options ::
    "(string list, string list) RemoteFallbackCacheProviderOptions" where
  "failing_put_options =
     \<lparr>localCacheProvider =
        Some (store_provider\<lparr>provider_put := (\<lambda>hash target s. (Rejected disk_full, s))\<rparr>),
      remoteCacheProvider = Some store_provider, writeRemoteCache = None\<rparr>"





definition test_target :: Target where
  "test_target = \<lparr>target_id = ''a'', cwd = ''/test/packages/a'', outputs = None\<rparr>"

text \<open>The keys of the eviction test, each fetched once, in order.\<close>

definition evict_store :: "string list" where
  "evict_store = [''evict1'', ''evict2'', ''evict3'', ''evict4'', ''evict5'']"

definition evict_calls :: "cache_call list" where
  "evict_calls = map (\<lambda>hash. Fetch hash test_target 0 0) evict_store"

text \<open>Three keys, the first of them fetched again, then a fourth.\<close>

definition refetch_calls :: "cache_call list" where
  "refetch_calls = map (\<lambda>hash. Fetch hash test_target 0 0)
     [''evict1'', ''evict2'', ''evict3'', ''evict1'', ''evict4'']"

text \<open>
  A later state of a table keeps the bound of an earlier one: the maximum is the same,
  and the later state is within it if the earlier one was.
\<close>

definition bound_kept :: "LRUCache \<Rightarrow> LRUCache \<Rightarrow> bool" where
  "bound_kept c c' = (lru_max c' = lru_max c \<and> (within_max c \<longrightarrow> within_max c'))"

section \<open>Properties of the object-storage provider\<close>

lemmas R2_defs = R2_fetch_def R2_fetch_try_def R2_fetch_download_def R2_fetch_catch_def
  R2_put_def R2_put_try_def R2_put_upload_def R2_putCommand_def outputGlob_of_def
  caught_message_def String_of_error_def Error_def
  TimeoutStream_new_def TimeoutStream_transform_def timer_fired_def fetch_timeout_ms_def
  fetch_timeout_message_def

lemmas example_defs = example_options_def example_env_def example_target_def send_object_def
  send_rejects_def ENOENT_def

subsection \<open>The empty key\<close>


subsection \<open>Errors of the object store\<close>
















subsection \<open>Size limits\<close>

text \<open>
  Claim C5, amended. For a non-empty key and a maximum size \<open>S\<close> greater than 0: when
  the metadata probe answers with a size greater than \<open>S\<close>, fetch resolves to false, the
  probe is the only command sent, and the oversize is logged. (A maximum size of 0 is
  falsy in \<^verbatim>\<open>if (maxSize)\<close>: no probe is sent and the object is downloaded.)
\<close>

theorem oversized_object_is_not_downloaded:
  assumes "hash \<noteq> []" and "maxSize opts = Some S" and "0 < S"
    and "s3_send e (HeadObjectCommand (bucket opts) hash) = Inr headResponse"
    and "ContentLength headResponse = Some n" and "S < int n"
  shows "R2_fetch opts e hash target =
     \<lparr>settled = Resolved False, sent = [HeadObjectCommand (bucket opts) hash],
      logged = [ObjectTooLarge hash n]\<rparr>"
  using assms by (simp add: R2_fetch_def R2_fetch_try_def Let_def)

text \<open>The test's numbers: a limit of 1 MB and an object of 2 MB.\<close>

theorem oversized_object_is_not_downloaded_witness:
  "maxSize (example_options (Some (1024 * 1024))) = Some (1024 * 1024) \<and>
   s3_send (example_env (send_object (2 * 1024 * 1024) [(1, Data ''tar''), (1, End)]) [])
     (HeadObjectCommand ''test-bucket'' ''abc123hash'') =
       Inr \<lparr>ContentLength = Some (2 * 1024 * 1024), Body = None\<rparr> \<and>
   R2_fetch (example_options (Some (1024 * 1024)))
     (example_env (send_object (2 * 1024 * 1024) [(1, Data ''tar''), (1, End)]) [])
     ''abc123hash'' example_target =
     \<lparr>settled = Resolved False, sent = [HeadObjectCommand ''test-bucket'' ''abc123hash''],
      logged = [ObjectTooLarge ''abc123hash'' (2 * 1024 * 1024)]\<rparr>"
  using oversized_object_is_not_downloaded[of "''abc123hash''" "example_options (Some (1024 * 1024))"
      "1024 * 1024" "example_env (send_object (2 * 1024 * 1024) [(1, Data ''tar''), (1, End)]) []"
      "\<lparr>ContentLength = Some (2 * 1024 * 1024), Body = None\<rparr>" "2 * 1024 * 1024" example_target]
  by (simp add: example_defs)

text \<open>
  With a maximum size of 0 and an object of 5 bytes, which the probe would report, fetch
  sends no probe, downloads the object and resolves to true.
\<close>

theorem oversized_object_limit_zero_counterexample:
  "maxSize (example_options (Some 0)) = Some 0 \<and>
   s3_send (example_env (send_object 5 [(1, Data ''tar''), (1, End)]) [])
     (HeadObjectCommand ''test-bucket'' ''abc123hash'') =
       Inr \<lparr>ContentLength = Some 5, Body = None\<rparr> \<and>
   R2_fetch (example_options (Some 0)) (example_env (send_object 5 [(1, Data ''tar''), (1, End)]) [])
     ''abc123hash'' example_target =
     \<lparr>settled = Resolved True, sent = [GetObjectCommand ''test-bucket'' ''abc123hash''],
      logged = [FetchedFromR2 ''abc123hash'']\<rparr>"
  by (simp add: R2_defs example_defs)

text \<open>
  Claim C3, amended. For a non-empty key and a maximum size \<open>S\<close> greater than 0: when
  the sizes of the output entries, as put adds them up, come to more than \<open>S\<close>, put
  sends nothing to the object store, logs the oversize and resolves. (A maximum size of
  0 is falsy in \<^verbatim>\<open>if (maxSize)\<close>: nothing is added up and the upload goes ahead.)
\<close>

theorem oversized_output_is_not_uploaded:
  assumes "hash \<noteq> []" and "maxSize opts = Some S" and "0 < S"
    and "R2_put_totalSize e (cwd target) (outputGlob_of target) 0 = Inr totalSize"
    and "S < int totalSize"
  shows "R2_put opts e hash target =
     \<lparr>settled = Resolved (), sent = [], logged = [OutputTooLarge hash totalSize]\<rparr>"
  using assms by (simp add: R2_put_def R2_put_try_def Let_def)

text \<open>The test's numbers: a limit of 1 MB and two output files of 600 KB.\<close>

theorem oversized_output_is_not_uploaded_witness:
  "maxSize (example_options (Some (1024 * 1024))) = Some (1024 * 1024) \<and>
   R2_put_totalSize (example_env (send_object 0 []) two_files) (cwd literal_target)
     (outputGlob_of literal_target) 0 = Inr (1200 * 1024) \<and>
   R2_put (example_options (Some (1024 * 1024))) (example_env (send_object 0 []) two_files)
     ''abc123hash'' literal_target =
     \<lparr>settled = Resolved (), sent = [], logged = [OutputTooLarge ''abc123hash'' (1200 * 1024)]\<rparr>"
  using oversized_output_is_not_uploaded[of "''abc123hash''" "example_options (Some (1024 * 1024))"
      "1024 * 1024" "example_env (send_object 0 []) two_files" literal_target "1200 * 1024"]
  by (simp add: example_defs two_files_def literal_target_def outputGlob_of_def)

text \<open>With a maximum size of 0 the same two files are uploaded.\<close>

theorem oversized_output_limit_zero_counterexample:
  "maxSize (example_options (Some 0)) = Some 0 \<and>
   R2_put_totalSize (example_env (send_object 0 []) two_files) (cwd literal_target)
     (outputGlob_of literal_target) 0 = Inr (1200 * 1024) \<and>
   R2_put (example_options (Some 0)) (example_env (send_object 0 []) two_files)
     ''abc123hash'' literal_target =
     \<lparr>settled = Resolved (),
      sent = [PutObjectCommand ''test-bucket'' ''abc123hash''
          (TarPack ''/tmp/pkg'' (Some [''lib/file1.js'', ''dist/file2.js''])) ''application/x-tar''],
      logged = [UploadedToR2 ''abc123hash'']\<rparr>"
  by (simp add: R2_defs example_defs two_files_def literal_target_def)








subsection \<open>The timeout guard\<close>













section \<open>Properties of the hit tables\<close>

text \<open>
  The operations of a table never change its maximum, \<^verbatim>\<open>get\<close> and \<^verbatim>\<open>clear\<close> never
  add an entry, and \<^verbatim>\<open>set\<close> on a table within its maximum leaves it within it.
\<close>

lemma LRU_without_length: "length (LRU_without c k) \<le> LRU_size c"
  by (simp add: LRU_without_def LRU_size_def)

lemma LRU_set_max [simp]: "lru_max (LRU_set c k v now) = lru_max c"
  by (simp add: LRU_set_def Let_def)

lemma LRU_get_max [simp]: "lru_max (snd (LRU_get c k now)) = lru_max c"
  by (simp add: LRU_get_def split: option.splits prod.splits)

lemma LRU_set_within: "within_max c \<Longrightarrow> within_max (LRU_set c k v now)"
  using LRU_without_length[of c k]
  by (auto simp add: within_max_def LRU_set_def LRU_size_def Let_def)

lemma map_of_without:
  "map_of es k = Some x \<Longrightarrow> length (filter (\<lambda>entry. fst entry \<noteq> k) es) < length es"
  by (induction es) (auto simp: less_Suc_eq_le split: if_splits)

lemma LRU_get_size: "LRU_size (snd (LRU_get c k now)) \<le> LRU_size c"
  using map_of_without[of "lru_entries c" k]
  by (auto simp add: LRU_get_def LRU_size_def LRU_without_def split: option.splits prod.splits)

lemma LRU_get_within: "within_max c \<Longrightarrow> within_max (snd (LRU_get c k now))"
  using LRU_get_size[of c k now] by (simp add: within_max_def)

lemma LRU_clear_within: "within_max c \<Longrightarrow> within_max (LRU_clear c)"
  by (simp add: within_max_def LRU_clear_def LRU_size_def)

lemma LRU_get_after_set: "fst (LRU_get (LRU_set c k v now) k now) = Some v"
  by (simp add: LRU_get_def LRU_set_def LRU_isStale_def Let_def)

lemma filter_absent_key: "k \<notin> fst ` set es \<Longrightarrow> filter (\<lambda>entry. fst entry \<noteq> k) es = es"
  by (rule filter_True) auto

lemma LRU_set_evicts:
  "\<not> LRU_has_key c k \<Longrightarrow> LRU_size c = lru_max c \<Longrightarrow>
   LRU_keys (LRU_set c k v now) = k # butlast (LRU_keys c)"
  by (simp add: LRU_has_key_def LRU_keys_def LRU_size_def LRU_set_def LRU_without_def Let_def
      map_butlast filter_absent_key)

text \<open>
  Every call of the orchestrator touches the tables through these operations only, so it
  keeps the bound of both.
\<close>

lemma bound_kept_refl [simp]: "bound_kept c c"
  by (simp add: bound_kept_def)

lemma bound_kept_trans: "bound_kept c c' \<Longrightarrow> bound_kept c' c'' \<Longrightarrow> bound_kept c c''"
  by (simp add: bound_kept_def)

lemma bound_kept_set [simp]: "bound_kept c (LRU_set c k v now)"
  by (simp add: bound_kept_def LRU_set_within)

lemma bound_kept_get [simp]: "bound_kept c (snd (LRU_get c k now))"
  by (simp add: bound_kept_def LRU_get_within)

lemma bound_kept_get': "LRU_get c k now = (v, c') \<Longrightarrow> bound_kept c c'"
  using bound_kept_get[of c k now] by simp

lemma bound_kept_clear [simp]: "bound_kept c (LRU_clear c)"
  by (simp add: bound_kept_def LRU_clear_within) (simp add: LRU_clear_def)

lemma fetch_local_tables:
  "bound_kept (localHits w) (localHits (snd (Fallback_fetch_local opts h t now w))) \<and>
   remoteHits (snd (Fallback_fetch_local opts h t now w)) = remoteHits w"
  by (simp add: Fallback_fetch_local_def split: option.splits prod.splits promise.splits)

lemma fetch_remote_tables:
  "bound_kept (remoteHits w) (remoteHits (snd (Fallback_fetch_remote opts r h t now w))) \<and>
   localHits (snd (Fallback_fetch_remote opts r h t now w)) = localHits w"
  by (simp add: Fallback_fetch_remote_def Let_def split: option.splits prod.splits promise.splits)

lemma fetch_tables:
  "bound_kept (localHits w) (localHits (snd (Fallback_fetch opts h t t1 t2 w))) \<and>
   bound_kept (remoteHits w) (remoteHits (snd (Fallback_fetch opts h t t1 t2 w)))"
proof -
  obtain p w1 where l: "Fallback_fetch_local opts h t t1 w = (p, w1)"
    by (cases "Fallback_fetch_local opts h t t1 w")
  have w1: "bound_kept (localHits w) (localHits w1)" "remoteHits w1 = remoteHits w"
    using fetch_local_tables[of w opts h t t1] l by simp_all
  obtain v hits where g: "LRU_get (localHits w1) h t1 = (v, hits)"
    by (cases "LRU_get (localHits w1) h t1")
  have hits: "bound_kept (localHits w) hits"
    using w1(1) bound_kept_get'[OF g] by (rule bound_kept_trans)
  show ?thesis
  proof (cases p)
    case (Resolved u)
    show ?thesis
    proof (cases "remoteCacheProvider opts")
      case None
      then show ?thesis using l Resolved g hits w1(2)
        by (simp add: Fallback_fetch_def Let_def)
    next
      case (Some r)
      show ?thesis
        using l Resolved g hits w1(2) Some
          fetch_remote_tables[of "w1\<lparr>localHits := hits\<rparr>" opts r h t t2]
        by (simp add: Fallback_fetch_def Let_def)
    qed
  next
    case (Rejected e)
    then show ?thesis using l w1 by (simp add: Fallback_fetch_def)
  next
    case Pending
    then show ?thesis using l w1 by (simp add: Fallback_fetch_def)
  qed
qed

lemma put_tables:
  "bound_kept (localHits w) (localHits (snd (Fallback_put opts h t now w))) \<and>
   bound_kept (remoteHits w) (remoteHits (snd (Fallback_put opts h t now w)))"
  by (auto simp add: Fallback_put_def Fallback_isLocalHit_def Fallback_isRemoteHit_def Let_def
      split: option.splits prod.splits dest: bound_kept_get')

lemma clear_tables:
  "bound_kept (localHits w) (localHits (snd (Fallback_clear opts w))) \<and>
   bound_kept (remoteHits w) (remoteHits (snd (Fallback_clear opts w)))"
  by (simp add: Fallback_clear_def Let_def split: option.splits prod.splits)

lemma purge_tables:
  "bound_kept (localHits w) (localHits (snd (Fallback_purge opts n w))) \<and>
   bound_kept (remoteHits w) (remoteHits (snd (Fallback_purge opts n w)))"
  by (simp add: Fallback_purge_def split: option.splits prod.splits)

lemma call_tables:
  "bound_kept (localHits w) (localHits (Fallback_call opts c w)) \<and>
   bound_kept (remoteHits w) (remoteHits (Fallback_call opts c w))"
  by (cases c) (simp_all add: fetch_tables put_tables clear_tables purge_tables)

lemma calls_tables:
  "bound_kept (localHits w) (localHits (Fallback_calls opts cs w)) \<and>
   bound_kept (remoteHits w) (remoteHits (Fallback_calls opts cs w))"
proof (induction cs arbitrary: w)
  case Nil
  show ?case by simp
next
  case (Cons c cs)
  show ?case
    using call_tables[of w opts c] Cons.IH[of "Fallback_call opts c w"]
    by (auto intro: bound_kept_trans)
qed

lemma LRU_set_size_full:
  "within_max c \<Longrightarrow> \<not> LRU_has_key c k \<Longrightarrow> LRU_size c = lru_max c \<Longrightarrow>
   LRU_size (LRU_set c k v now) = lru_max c"
  by (simp add: within_max_def LRU_has_key_def LRU_keys_def LRU_size_def LRU_set_def
      LRU_without_def Let_def filter_absent_key)

section \<open>Properties of the orchestrator\<close>

lemmas Fallback_defs = Fallback_fetch_def Fallback_fetch_local_def Fallback_fetch_remote_def
  Fallback_put_def Fallback_isLocalHit_def Fallback_isRemoteHit_def Fallback_clear_def
  Fallback_purge_def new_events_def truthy_def

lemmas LRU_defs = LRUCache_new_def LRU_size_def LRU_keys_def LRU_has_key_def LRU_without_def
  LRU_isStale_def LRU_set_def LRU_get_def LRU_clear_def

lemmas store_defs = store_provider_def store_options_def store_world_def test_target_def

lemma Fallback_fetch_local_hit:
  assumes "localCacheProvider opts = Some l"
    and "provider_fetch l k target (local_state w) = (Resolved b, s)"
  shows "Fallback_fetch_local opts k target now w =
     (Resolved (),
      w\<lparr>localHits := LRU_set (localHits w) k b now, local_state := s,
        trace := trace w @ [LocalFetch k target, LogLocalFetch k b]\<rparr>)"
  using assms by (simp add: Fallback_fetch_local_def)

text \<open>
  Claim C1. When a local provider is configured and its fetch of the key resolves to true,
  the orchestrator's fetch resolves to true; all it does is the local fetch and its log
  line: the remote provider is not called (its state and the remote hit table are as
  before), whether or not one is configured.
\<close>

theorem local_hit_never_consults_remote:
  assumes "localCacheProvider opts = Some l"
    and "provider_fetch l k target (local_state w) = (Resolved True, s)"
  shows "fst (Fallback_fetch opts k target t_local t_remote w) = Resolved True \<and>
         new_events w (snd (Fallback_fetch opts k target t_local t_remote w)) =
           [LocalFetch k target, LogLocalFetch k True] \<and>
         remote_state (snd (Fallback_fetch opts k target t_local t_remote w)) = remote_state w \<and>
         remoteHits (snd (Fallback_fetch opts k target t_local t_remote w)) = remoteHits w"
proof -
  let ?w1 = "w\<lparr>localHits := LRU_set (localHits w) k True t_local, local_state := s,
        trace := trace w @ [LocalFetch k target, LogLocalFetch k True]\<rparr>"
  have loc: "Fallback_fetch_local opts k target t_local w = (Resolved (), ?w1)"
    using assms by (rule Fallback_fetch_local_hit)
  obtain hits where g: "LRU_get (LRU_set (localHits w) k True t_local) k t_local = (Some True, hits)"
    using LRU_get_after_set[of "localHits w" k True t_local]
    by (cases "LRU_get (LRU_set (localHits w) k True t_local) k t_local") simp
  have "Fallback_fetch opts k target t_local t_remote w = (Resolved True, ?w1\<lparr>localHits := hits\<rparr>)"
    by (simp add: Fallback_fetch_def loc g truthy_def Let_def split: option.splits)
  then show ?thesis by (simp add: new_events_def)
qed

text \<open>The key is in the local store.\<close>

theorem local_hit_never_consults_remote_witness:
  "provider_fetch store_provider ''k1'' test_target [''k1''] = (Resolved True, [''k1'']) \<and>
   fst (Fallback_fetch (store_options None) ''k1'' test_target 0 0
          (store_world 10000 3600000 [''k1''] [''k1''])) = Resolved True \<and>
   trace (snd (Fallback_fetch (store_options None) ''k1'' test_target 0 0
          (store_world 10000 3600000 [''k1''] [''k1'']))) =
     [LocalFetch ''k1'' test_target, LogLocalFetch ''k1'' True]"
  using local_hit_never_consults_remote[of "store_options None" store_provider "''k1''" test_target
      "store_world 10000 3600000 [''k1''] [''k1'']" "[''k1'']" 0 0]
  by (simp add: Fallback_defs LRU_defs store_defs Let_def)

lemma Fallback_fetch_remote_hit:
  assumes "provider_fetch r k target (remote_state w2) = (Resolved True, s_remote)"
  shows "new_events w2 (snd (Fallback_fetch_remote opts r k target now w2)) =
           (if localCacheProvider opts = None
            then [RemoteFetch k target, LogRemoteFetch k True]
            else [RemoteFetch k target, LogRemoteFetch k True,
                  LogLocalPutFromRemote k, LocalPut k target]) \<and>
         fst (Fallback_fetch_remote opts r k target now w2) =
           (case localCacheProvider opts of
              None \<Rightarrow> Resolved True
            | Some l \<Rightarrow>
                (case fst (provider_put l k target (local_state w2)) of
                   Resolved u \<Rightarrow> Resolved True
                 | Rejected err \<Rightarrow> Rejected err
                 | Pending \<Rightarrow> Pending))"
proof (cases "localCacheProvider opts")
  case None
  then show ?thesis using assms
    by (simp add: Fallback_fetch_remote_def new_events_def Let_def)
next
  case (Some l)
  obtain p s_local where put: "provider_put l k target (local_state w2) = (p, s_local)"
    by (cases "provider_put l k target (local_state w2)")
  show ?thesis using Some assms put
    by (cases p) (simp_all add: Fallback_fetch_remote_def new_events_def Let_def)
qed

text \<open>
  Claim C2, amended. Let the local lookup (the first block of fetch) have resolved,
  leaving the world \<open>w1\<close>, let the local hit record read back for the key be falsy, a
  remote provider be configured and its fetch of the key resolve to true. Then what
  fetch does after the local lookup is the remote fetch and, with a local provider, one
  call of its put for the key and the target; the local lookup itself calls no put.
  fetch resolves to true when no local provider is configured or that put resolves; when
  the put rejects, fetch rejects with its error, and when it never settles, neither does
  fetch: the put is awaited with no handler.
\<close>

theorem remote_hit_populates_local:
  assumes "Fallback_fetch_local opts k target t_local w = (Resolved (), w1)"
    and "\<not> truthy (fst (LRU_get (localHits w1) k t_local))"
    and "remoteCacheProvider opts = Some r"
    and "provider_fetch r k target (remote_state w1) = (Resolved True, s_remote)"
  shows "new_events w1 (snd (Fallback_fetch opts k target t_local t_remote w)) =
           (if localCacheProvider opts = None
            then [RemoteFetch k target, LogRemoteFetch k True]
            else [RemoteFetch k target, LogRemoteFetch k True,
                  LogLocalPutFromRemote k, LocalPut k target]) \<and>
         (\<forall>h t. LocalPut h t \<notin> set (new_events w w1)) \<and>
         fst (Fallback_fetch opts k target t_local t_remote w) =
           (case localCacheProvider opts of
              None \<Rightarrow> Resolved True
            | Some l \<Rightarrow>
                (case fst (provider_put l k target (local_state w1)) of
                   Resolved u \<Rightarrow> Resolved True
                 | Rejected err \<Rightarrow> Rejected err
                 | Pending \<Rightarrow> Pending))"
proof -
  obtain v hits where g: "LRU_get (localHits w1) k t_local = (v, hits)"
    by (cases "LRU_get (localHits w1) k t_local")
  with assms(2) have nt: "\<not> truthy v" by simp
  let ?w2 = "w1\<lparr>localHits := hits\<rparr>"
  have f: "Fallback_fetch opts k target t_local t_remote w =
      Fallback_fetch_remote opts r k target t_remote ?w2"
    using assms(1,3) g nt by (simp add: Fallback_fetch_def Let_def)
  have r: "provider_fetch r k target (remote_state ?w2) = (Resolved True, s_remote)"
    using assms(4) by simp
  have same: "new_events ?w2 = new_events w1" "local_state ?w2 = local_state w1"
    by (simp_all add: new_events_def fun_eq_iff)
  have "\<forall>h t. LocalPut h t \<notin> set (new_events w w1)"
    using assms(1)
    by (auto simp add: Fallback_fetch_local_def new_events_def
        split: option.splits prod.splits promise.splits)
  with Fallback_fetch_remote_hit[OF r, of opts t_remote] show ?thesis
    by (simp add: f same split: option.splits)
qed

text \<open>The key is in the remote store only; the local store holds it afterwards.\<close>

theorem remote_hit_populates_local_witness:
  "fst (Fallback_fetch (store_options None) ''k1'' test_target 0 0
          (store_world 10000 3600000 [] [''k1''])) = Resolved True \<and>
   trace (snd (Fallback_fetch (store_options None) ''k1'' test_target 0 0
          (store_world 10000 3600000 [] [''k1'']))) =
     [LocalFetch ''k1'' test_target, LogLocalFetch ''k1'' False,
      RemoteFetch ''k1'' test_target, LogRemoteFetch ''k1'' True,
      LogLocalPutFromRemote ''k1'', LocalPut ''k1'' test_target] \<and>
   local_state (snd (Fallback_fetch (store_options None) ''k1'' test_target 0 0
          (store_world 10000 3600000 [] [''k1'']))) = [''k1'']"
  using remote_hit_populates_local[of "store_options None" "''k1''" test_target 0
      "store_world 10000 3600000 [] [''k1'']"
      "snd (Fallback_fetch_local (store_options None) ''k1'' test_target 0
          (store_world 10000 3600000 [] [''k1'']))" store_provider "[''k1'']" 0]
  by (simp add: Fallback_defs LRU_defs store_defs Let_def)

text \<open>
  The same stores with a local provider whose put rejects: the local lookup resolves and
  leaves a falsy record, the remote fetch resolves to true, the local put is called
  once, and fetch rejects with the put's error instead of returning true.
\<close>

theorem remote_hit_put_rejects_counterexample:
  "fst (Fallback_fetch_local failing_put_options ''k1'' test_target 0
          (store_world 10000 3600000 [] [''k1''])) = Resolved () \<and>
   \<not> truthy (fst (LRU_get (localHits (snd (Fallback_fetch_local failing_put_options ''k1''
          test_target 0 (store_world 10000 3600000 [] [''k1''])))) ''k1'' 0)) \<and>
   remoteCacheProvider failing_put_options = Some store_provider \<and>
   provider_fetch store_provider ''k1'' test_target [''k1''] = (Resolved True, [''k1'']) \<and>
   fst (Fallback_fetch failing_put_options ''k1'' test_target 0 0
          (store_world 10000 3600000 [] [''k1''])) = Rejected disk_full \<and>
   trace (snd (Fallback_fetch failing_put_options ''k1'' test_target 0 0
          (store_world 10000 3600000 [] [''k1'']))) =
     [LocalFetch ''k1'' test_target, LogLocalFetch ''k1'' False,
      RemoteFetch ''k1'' test_target, LogRemoteFetch ''k1'' True,
      LogLocalPutFromRemote ''k1'', LocalPut ''k1'' test_target]"
  by (simp add: Fallback_defs LRU_defs store_defs failing_put_options_def Let_def)

lemma Fallback_put_remote_state:
  assumes "writeRemoteCache opts \<noteq> Some True"
  shows "remote_state (snd (Fallback_put opts k target now w)) = remote_state w"
  using assms
  by (simp add: Fallback_put_def Fallback_isLocalHit_def Fallback_isRemoteHit_def Let_def
      split: prod.splits option.splits)

lemma Fallback_put_trace:
  assumes "writeRemoteCache opts \<noteq> Some True"
  shows "new_events w (snd (Fallback_put opts k target now w)) = [] \<or>
         new_events w (snd (Fallback_put opts k target now w)) = [LogLocalPut k, LocalPut k target]"
  using assms
  by (simp add: Fallback_put_def Fallback_isLocalHit_def Fallback_isRemoteHit_def Let_def
      new_events_def split: prod.splits option.splits)

text \<open>
  Claim C4. When \<^verbatim>\<open>writeRemoteCache\<close> is not true (absent or false), put never calls
  the remote provider's put, whatever the providers and the hit tables are: no such call
  is in the trace and the remote provider's state is as before.
\<close>

theorem write_remote_disabled_no_remote_put:
  assumes "writeRemoteCache opts \<noteq> Some True"
  shows "(\<forall>h t. RemotePut h t \<notin> set (new_events w (snd (Fallback_put opts k target now w)))) \<and>
         remote_state (snd (Fallback_put opts k target now w)) = remote_state w"
  using Fallback_put_trace[OF assms, of w k target now] Fallback_put_remote_state[OF assms, of k target now w]
  by auto

text \<open>
  Both stores and both hit tables empty: with the flag absent or false only the local put
  is called; with the flag true the remote put is called as well.
\<close>

theorem write_remote_disabled_no_remote_put_witness:
  "writeRemoteCache (store_options None) \<noteq> Some True \<and>
   LRU_get (remoteHits (store_world 10000 3600000 [] [])) ''k1'' 0 =
     (None, remoteHits (store_world 10000 3600000 [] [])) \<and>
   Fallback_put (store_options None) ''k1'' test_target 0 (store_world 10000 3600000 [] []) =
     (Resolved (),
      (store_world 10000 3600000 [''k1''] [])
        \<lparr>trace := [LogLocalPut ''k1'', LocalPut ''k1'' test_target]\<rparr>) \<and>
   Fallback_put (store_options (Some False)) ''k1'' test_target 0 (store_world 10000 3600000 [] []) =
     (Resolved (),
      (store_world 10000 3600000 [''k1''] [])
        \<lparr>trace := [LogLocalPut ''k1'', LocalPut ''k1'' test_target]\<rparr>) \<and>
   Fallback_put (store_options (Some True)) ''k1'' test_target 0 (store_world 10000 3600000 [] []) =
     (Resolved (),
      (store_world 10000 3600000 [''k1''] [''k1''])
        \<lparr>trace := [LogLocalPut ''k1'', LocalPut ''k1'' test_target,
                   LogRemotePut ''k1'', RemotePut ''k1'' test_target]\<rparr>)"
  using write_remote_disabled_no_remote_put[of "store_options None"
      "store_world 10000 3600000 [] []" "''k1''" test_target 0]
  by (simp add: Fallback_defs LRU_defs store_defs Let_def)

lemma map_fst_without: "map fst (filter (\<lambda>entry. fst entry \<noteq> k) es) = removeAll k (map fst es)"
  by (induction es) auto

lemma LRU_get_hit_keys:
  "fst (LRU_get c k now) = Some v \<Longrightarrow>
   LRU_keys (snd (LRU_get c k now)) = k # removeAll k (LRU_keys c)"
  by (auto simp add: LRU_get_def LRU_keys_def LRU_without_def map_fst_without
      split: option.splits prod.splits if_splits)

text \<open>
  Claim C8. Whatever the providers do, after every sequence of calls of the orchestrator
  (fetches in particular) each hit table that started within its positive maximum still
  has at most that many entries. The keys of a table are kept most recently used first
  (a hit of \<^verbatim>\<open>get\<close> moves its key to the front), and setting a new key in a full table
  drops the last one, the least recently used, and leaves the table full. With a maximum
  of 3, fetching \<^verbatim>\<open>evict1\<close> to \<^verbatim>\<open>evict5\<close> in order leaves \<^verbatim>\<open>evict3\<close>,
  \<^verbatim>\<open>evict4\<close> and \<^verbatim>\<open>evict5\<close> in both tables.
\<close>

theorem hit_tables_bounded_lru:
  "(within_max (localHits w) \<longrightarrow>
      LRU_size (localHits (Fallback_calls opts calls w)) \<le> lru_max (localHits w)) \<and>
   (within_max (remoteHits w) \<longrightarrow>
      LRU_size (remoteHits (Fallback_calls opts calls w)) \<le> lru_max (remoteHits w)) \<and>
   (within_max c \<and> \<not> LRU_has_key c k \<and> LRU_size c = lru_max c \<longrightarrow>
      LRU_keys (LRU_set c k v now) = k # butlast (LRU_keys c) \<and>
      LRU_size (LRU_set c k v now) = lru_max c) \<and>
   (fst (LRU_get c k now) = Some v \<longrightarrow>
      LRU_keys (snd (LRU_get c k now)) = k # removeAll k (LRU_keys c)) \<and>
   LRU_keys (localHits (Fallback_calls (store_options None) evict_calls
      (store_world 3 0 [] evict_store))) = [''evict5'', ''evict4'', ''evict3''] \<and>
   LRU_keys (remoteHits (Fallback_calls (store_options None) evict_calls
      (store_world 3 0 [] evict_store))) = [''evict5'', ''evict4'', ''evict3'']"
proof (intro conjI impI)
  assume "within_max (localHits w)"
  then show "LRU_size (localHits (Fallback_calls opts calls w)) \<le> lru_max (localHits w)"
    using calls_tables[of w opts calls] by (simp add: bound_kept_def within_max_def)
next
  assume "within_max (remoteHits w)"
  then show "LRU_size (remoteHits (Fallback_calls opts calls w)) \<le> lru_max (remoteHits w)"
    using calls_tables[of w opts calls] by (simp add: bound_kept_def within_max_def)
next
  assume a: "within_max c \<and> \<not> LRU_has_key c k \<and> LRU_size c = lru_max c"
  then show "LRU_keys (LRU_set c k v now) = k # butlast (LRU_keys c)"
    by (simp add: LRU_set_evicts)
  from a show "LRU_size (LRU_set c k v now) = lru_max c"
    by (simp add: LRU_set_size_full)
next
  assume "fst (LRU_get c k now) = Some v"
  then show "LRU_keys (snd (LRU_get c k now)) = k # removeAll k (LRU_keys c)"
    by (rule LRU_get_hit_keys)
next
  show "LRU_keys (localHits (Fallback_calls (store_options None) evict_calls
      (store_world 3 0 [] evict_store))) = [''evict5'', ''evict4'', ''evict3'']"
    by (simp add: evict_calls_def evict_store_def Fallback_defs LRU_defs store_defs Let_def)
next
  show "LRU_keys (remoteHits (Fallback_calls (store_options None) evict_calls
      (store_world 3 0 [] evict_store))) = [''evict5'', ''evict4'', ''evict3'']"
    by (simp add: evict_calls_def evict_store_def Fallback_defs LRU_defs store_defs Let_def)
qed

text \<open>
  The eviction test, and a run in which \<^verbatim>\<open>evict1\<close> is fetched again before the fourth
  key: \<^verbatim>\<open>evict2\<close>, by then the least recently used, is the one dropped.
\<close>

theorem hit_tables_bounded_lru_witness:
  "within_max (localHits (store_world 3 0 [] evict_store)) \<and>
   within_max (remoteHits (store_world 3 0 [] evict_store)) \<and>
   LRU_size (localHits (Fallback_calls (store_options None) evict_calls
      (store_world 3 0 [] evict_store))) = 3 \<and>
   LRU_size (remoteHits (Fallback_calls (store_options None) evict_calls
      (store_world 3 0 [] evict_store))) = 3 \<and>
   LRU_keys (localHits (Fallback_calls (store_options None) refetch_calls
      (store_world 3 0 [] evict_store))) = [''evict4'', ''evict1'', ''evict3'']"
  using hit_tables_bounded_lru[of "store_world 3 0 [] evict_store" "store_options None"
      evict_calls "LRUCache_new 3 0" "''evict1''" True 0]
  by (simp add: evict_calls_def refetch_calls_def evict_store_def Fallback_defs LRU_defs
      store_defs within_max_def Let_def)

subsection \<open>The empty key\<close>









end
